theory Spec2Isabelle
  imports Complex_Main
begin

section \<open>Terminal games: a shallow embedding\<close>

text \<open>
  The repository holds five independent C programs on ncurses: a platformer
  (\<^verbatim>\<open>mario_game.c\<close>), two shooters (\<^verbatim>\<open>shooting_game.c\<close> and the
  \<^verbatim>\<open>ascii_shooter.c\<close> of the first unnamed part) and two snake games
  (\<^verbatim>\<open>snake_game.c\<close> and the second program of the unnamed part, which plays on the
  full screen). Each keeps its world in global variables; the embedding gathers the globals of
  a program in a record and passes it through every function. Names of the source are kept,
  with a prefix for the program where two programs share a name:
  \<open>sg_\<close> for \<^verbatim>\<open>shooting_game.c\<close>, \<open>as_\<close> for \<^verbatim>\<open>ascii_shooter.c\<close>,
  \<open>sn_\<close> for \<^verbatim>\<open>snake_game.c\<close>, \<open>fs_\<close> for the full-screen snake.

  C \<^verbatim>\<open>int\<close>s are modelled as integers. The counters, scores and steps of these games
  stay within a terminal's dimensions or a few thousand and are computed without a bound;
  the subtractions of the shooters' collision tests, whose operands are any two columns, are
  computed as the 32-bit machine does, wrapping around (\<open>wrap32\<close>). Flags the code keeps
  in an \<^verbatim>\<open>int\<close> and only tests for zero (\<^verbatim>\<open>paused\<close>, \<^verbatim>\<open>game_over\<close>, \<^verbatim>\<open>win\<close>,
  \<^verbatim>\<open>on_ground\<close>, \<^verbatim>\<open>alive\<close>) are booleans. A singly linked list is the list of its
  records, head first. Drawing calls change no game state and are left out.
\<close>

subsection \<open>Keys\<close>

text \<open>
  \<^verbatim>\<open>getch\<close> returns an \<^verbatim>\<open>int\<close>: a character code, or one of the key codes of
  \<^verbatim>\<open>ncurses.h\<close>, whose values are those of the ncurses header.
\<close>

definition KEY_DOWN :: int where "KEY_DOWN = 258"
definition KEY_UP :: int where "KEY_UP = 259"
definition KEY_LEFT :: int where "KEY_LEFT = 260"
definition KEY_RIGHT :: int where "KEY_RIGHT = 261"

definition chr :: "char \<Rightarrow> int" where
  "chr c = of_char c"

subsection \<open>Failures\<close>

text \<open>
  A run of one of these programs can leave the modelled behaviour in two ways: by writing
  through a null pointer, and by taking a remainder by zero.
\<close>

datatype error = NullDeref | DivByZero

subsection \<open>The shooters\<close>

record bullet =
  b_x :: int
  b_y :: int
  b_dy :: int

record enemy =
  e_x :: int
  e_y :: int
  tick_counter :: int
  speed_ticks :: int

record ship =
  p_x :: int
  p_y :: int
  p_lives :: int
  p_score :: int

text \<open>
  The globals of a shooter. \<open>tick_count\<close> and \<open>level\<close> exist in
  \<^verbatim>\<open>ascii_shooter.c\<close> only, \<open>enemy_fire_chance\<close> in \<^verbatim>\<open>shooting_game.c\<close> only;
  the other globals are the same in both programs.
\<close>

record shooter =
  max_x :: int
  max_y :: int
  player :: ship
  enemies :: "enemy list"
  bullets :: "bullet list"
  spawn_counter :: int
  spawn_rate :: int
  enemy_speed :: int
  enemy_fire_chance :: int
  tick_count :: int
  level :: int
  game_over :: bool
  paused :: bool

text \<open>
  \<^verbatim>\<open>add_enemy\<close> and \<^verbatim>\<open>add_bullet\<close>. The first argument is the outcome of the call's
  \<^verbatim>\<open>malloc\<close>: \<open>True\<close> for a record, \<open>False\<close> for the null pointer.
  \<^verbatim>\<open>ascii_shooter.c\<close> returns on a null pointer; \<^verbatim>\<open>shooting_game.c\<close> writes the
  fields through it.
\<close>

definition as_add_enemy :: "bool \<Rightarrow> int \<Rightarrow> int \<Rightarrow> int \<Rightarrow> shooter \<Rightarrow> shooter" where
  "as_add_enemy m x y sp s =
     (if m then s\<lparr>enemies := \<lparr>e_x = x, e_y = y, tick_counter = 0, speed_ticks = sp\<rparr> # enemies s\<rparr>
      else s)"

definition as_add_bullet :: "bool \<Rightarrow> int \<Rightarrow> int \<Rightarrow> int \<Rightarrow> shooter \<Rightarrow> shooter" where
  "as_add_bullet m x y dy s =
     (if m then s\<lparr>bullets := \<lparr>b_x = x, b_y = y, b_dy = dy\<rparr> # bullets s\<rparr>
      else s)"

definition sg_add_enemy :: "bool \<Rightarrow> int \<Rightarrow> int \<Rightarrow> int \<Rightarrow> shooter \<Rightarrow> error + shooter" where
  "sg_add_enemy m x y sp s =
     (if m then Inr (s\<lparr>enemies := \<lparr>e_x = x, e_y = y, tick_counter = 0, speed_ticks = sp\<rparr> # enemies s\<rparr>)
      else Inl NullDeref)"

definition sg_add_bullet :: "bool \<Rightarrow> int \<Rightarrow> int \<Rightarrow> int \<Rightarrow> shooter \<Rightarrow> error + shooter" where
  "sg_add_bullet m x y dy s =
     (if m then Inr (s\<lparr>bullets := \<lparr>b_x = x, b_y = y, b_dy = dy\<rparr> # bullets s\<rparr>)
      else Inl NullDeref)"

text \<open>
  \<^verbatim>\<open>update_bullets\<close>, the same loop in both programs (\<^verbatim>\<open>BULLET_SPEED\<close> is 1):
  every bullet steps by its \<open>b_dy\<close>, and is unlinked when it then stands on or beyond
  row 2 or row \<open>max_y - 2\<close>.
\<close>

fun bullets_loop :: "int \<Rightarrow> bullet list \<Rightarrow> bullet list" where
  "bullets_loop my [] = []"
| "bullets_loop my (b # bs) =
     (let b' = b\<lparr>b_y := b_y b + b_dy b\<rparr>
      in if b_y b' \<le> 2 \<or> b_y b' \<ge> my - 2 then bullets_loop my bs
         else b' # bullets_loop my bs)"

definition update_bullets :: "shooter \<Rightarrow> shooter" where
  "update_bullets s = s\<lparr>bullets := bullets_loop (max_y s) (bullets s)\<rparr>"

text \<open>
  \<^verbatim>\<open>process_input\<close> drains the pending keys. \<open>as_process_key\<close> and
  \<open>sg_process_key\<close> are the body of its loop for one key \<open>ch\<close>; \<open>m\<close> is the outcome
  of the \<^verbatim>\<open>malloc\<close> the key's \<^verbatim>\<open>add_bullet\<close> would make. The loop runs over the
  pending keys, each paired with that outcome.
\<close>

definition as_process_key :: "int \<Rightarrow> bool \<Rightarrow> shooter \<Rightarrow> shooter" where
  "as_process_key ch m s =
     (if ch = KEY_LEFT \<or> ch = chr (CHR ''a'') \<or> ch = chr (CHR ''A'') then
        (if \<not> paused s then
           (if p_x (player s) > 2 then s\<lparr>player := (player s)\<lparr>p_x := p_x (player s) - 2\<rparr>\<rparr> else s)
         else s)
      else if ch = KEY_RIGHT \<or> ch = chr (CHR ''d'') \<or> ch = chr (CHR ''D'') then
        (if \<not> paused s then
           (if p_x (player s) < max_x s - 3 then s\<lparr>player := (player s)\<lparr>p_x := p_x (player s) + 2\<rparr>\<rparr> else s)
         else s)
      else if ch = chr (CHR '' '') then
        (if \<not> paused s then as_add_bullet m (p_x (player s)) (p_y (player s) - 1) (- 1) s else s)
      else if ch = chr (CHR ''p'') \<or> ch = chr (CHR ''P'') then s\<lparr>paused := \<not> paused s\<rparr>
      else if ch = chr (CHR ''q'') \<or> ch = chr (CHR ''Q'') then s\<lparr>game_over := True\<rparr>
      else s)"

fun as_process_input :: "(int \<times> bool) list \<Rightarrow> shooter \<Rightarrow> shooter" where
  "as_process_input [] s = s"
| "as_process_input ((ch, m) # ks) s = as_process_input ks (as_process_key ch m s)"

definition sg_process_key :: "int \<Rightarrow> bool \<Rightarrow> shooter \<Rightarrow> error + shooter" where
  "sg_process_key ch m s =
     (if ch = KEY_LEFT \<and> p_x (player s) > 2 then
        Inr (s\<lparr>player := (player s)\<lparr>p_x := p_x (player s) - 2\<rparr>\<rparr>)
      else if ch = KEY_RIGHT \<and> p_x (player s) < max_x s - 3 then
        Inr (s\<lparr>player := (player s)\<lparr>p_x := p_x (player s) + 2\<rparr>\<rparr>)
      else if ch = chr (CHR '' '') then
        sg_add_bullet m (p_x (player s)) (p_y (player s) - 1) (- 1) s
      else if ch = chr (CHR ''p'') \<or> ch = chr (CHR ''P'') then Inr (s\<lparr>paused := \<not> paused s\<rparr>)
      else if ch = chr (CHR ''q'') \<or> ch = chr (CHR ''Q'') then Inr (s\<lparr>game_over := True\<rparr>)
      else Inr s)"

fun sg_process_input :: "(int \<times> bool) list \<Rightarrow> shooter \<Rightarrow> error + shooter" where
  "sg_process_input [] s = Inr s"
| "sg_process_input ((ch, m) # ks) s =
     (case sg_process_key ch m s of Inl e \<Rightarrow> Inl e | Inr s' \<Rightarrow> sg_process_input ks s')"

text \<open>
  The result of an \<^verbatim>\<open>int\<close> operation whose exact value is \<open>n\<close>, as a 32-bit machine in
  two's complement leaves it: \<open>n\<close> itself from \<open>- 2^31\<close> to \<open>2^31 - 1\<close>. \<open>c_abs\<close> is
  \<^verbatim>\<open>abs\<close> of \<^verbatim>\<open>stdlib.h\<close>, which negates a negative argument.
\<close>

definition wrap32 :: "int \<Rightarrow> int" where
  "wrap32 n = (n + 2 ^ 31) mod 2 ^ 32 - 2 ^ 31"

definition c_abs :: "int \<Rightarrow> int" where
  "c_abs n = (if n < 0 then wrap32 (- n) else n)"

text \<open>
  \<^verbatim>\<open>check_collisions\<close>. The inner loop looks for the first enemy a player bullet hits
  and unlinks it: \<open>Some\<close> of the remaining enemies, or \<open>None\<close> when the bullet hits none.
  \<^verbatim>\<open>ascii_shooter.c\<close> measures the column distance with its own \<^verbatim>\<open>absdiff\<close>,
  \<^verbatim>\<open>shooting_game.c\<close> with \<^verbatim>\<open>abs\<close>.
\<close>

definition absdiff :: "int \<Rightarrow> int \<Rightarrow> int" where
  "absdiff a b = (if a > b then wrap32 (a - b) else wrap32 (b - a))"





definition add_score :: "int \<Rightarrow> shooter \<Rightarrow> shooter" where
  "add_score n s = s\<lparr>player := (player s)\<lparr>p_score := p_score (player s) + n\<rparr>\<rparr>"







subsection \<open>The C library's random numbers\<close>

text \<open>
  \<^verbatim>\<open>rand\<close> is modelled by the sequence of values its successive calls return (each
  between 0 and \<^verbatim>\<open>RAND_MAX\<close>, so a natural number) and the number of calls made so far.
\<close>

record rng =
  rand_seq :: "nat \<Rightarrow> nat"
  rand_calls :: nat

definition rand :: "rng \<Rightarrow> int \<times> rng" where
  "rand g = (int (rand_seq g (rand_calls g)), g\<lparr>rand_calls := Suc (rand_calls g)\<rparr>)"

text \<open>C's \<^verbatim>\<open>%\<close> truncates towards zero; the divisor is not zero where this is used.\<close>

definition c_rem :: "int \<Rightarrow> int \<Rightarrow> int" where
  "c_rem a b = sgn a * (\<bar>a\<bar> mod \<bar>b\<bar>)"

subsection \<open>The snake games\<close>

record segment =
  seg_x :: int
  seg_y :: int

text \<open>
  \<open>head\<close> is the list of segments reached from \<^verbatim>\<open>snake.head\<close>. The pointer
  \<^verbatim>\<open>snake.tail\<close> is written and never read in both programs, and is left out.
\<close>

record snake =
  head :: "segment list"
  dir_x :: int
  dir_y :: int

record food =
  food_x :: int
  food_y :: int

text \<open>
  The globals of a snake game. The play area (\<open>play_x0\<close>, \<open>play_y0\<close>, \<open>play_w\<close>,
  \<open>play_h\<close>) exists in \<^verbatim>\<open>snake_game.c\<close> only.
\<close>

record snake_world =
  sn_max_x :: int
  sn_max_y :: int
  play_x0 :: int
  play_y0 :: int
  play_w :: int
  play_h :: int
  snake :: snake
  food :: food
  score :: int
  sn_paused :: bool
  delay_time :: int
  sn_rng :: rng

text \<open>The scan of \<^verbatim>\<open>spawn_food\<close> over the body for the drawn cell.\<close>

fun conflict :: "segment list \<Rightarrow> int \<Rightarrow> int \<Rightarrow> bool" where
  "conflict [] fx fy = False"
| "conflict (c # cs) fx fy = (if seg_x c = fx \<and> seg_y c = fy then True else conflict cs fx fy)"

text \<open>
  \<^verbatim>\<open>spawn_food\<close> draws cells until one is free of the snake. The two programs differ
  in the cell they draw only: \<^verbatim>\<open>fx = rand() % wx + ox\<close> and
  \<^verbatim>\<open>fy = rand() % wy + oy\<close>, with \<open>wx = play_w - 2\<close>, \<open>ox = play_x0 + 1\<close>,
  \<open>wy = play_h - 2\<close>, \<open>oy = play_y0 + 1\<close> in \<^verbatim>\<open>snake_game.c\<close> and
  \<open>wx = max_x - 2\<close>, \<open>ox = 1\<close>, \<open>wy = max_y - 3\<close>, \<open>oy = 2\<close> in the full-screen
  snake. The loop has no bound, so the function is partial: \<open>None\<close> is a run that never
  leaves the loop. A remainder by zero ends the run.
\<close>

partial_function (option)
  food_loop :: "int \<Rightarrow> int \<Rightarrow> int \<Rightarrow> int \<Rightarrow> snake_world \<Rightarrow> (error + snake_world) option"
where
  "food_loop wx ox wy oy w =
     (case rand (sn_rng w) of
        (r1, g1) \<Rightarrow>
          (if wx = 0 then Some (Inl DivByZero)
           else (case rand g1 of
             (r2, g2) \<Rightarrow>
               (if wy = 0 then Some (Inl DivByZero)
                else (let fx = c_rem r1 wx + ox;
                          fy = c_rem r2 wy + oy
                      in if conflict (head (snake w)) fx fy
                         then food_loop wx ox wy oy (w\<lparr>sn_rng := g2\<rparr>)
                         else Some (Inr (w\<lparr>sn_rng := g2, food := \<lparr>food_x = fx, food_y = fy\<rparr>\<rparr>)))))))"

definition sn_spawn_food :: "snake_world \<Rightarrow> (error + snake_world) option" where
  "sn_spawn_food w = food_loop (play_w w - 2) (play_x0 w + 1) (play_h w - 2) (play_y0 w + 1) w"

definition fs_spawn_food :: "snake_world \<Rightarrow> (error + snake_world) option" where
  "fs_spawn_food w = food_loop (sn_max_x w - 2) 1 (sn_max_y w - 3) 2 w"

text \<open>
  \<^verbatim>\<open>erase_tail\<close> walks to the last but one segment and unlinks the last.
  \<open>unlink_last\<close> is the walk on a list of two segments or more.
  \<^verbatim>\<open>snake_game.c\<close> returns at once on a snake of fewer than two segments; the
  full-screen snake reads through the null pointer there.
\<close>

fun unlink_last :: "segment list \<Rightarrow> segment list" where
  "unlink_last (c # n # nn # cs) = c # unlink_last (n # nn # cs)"
| "unlink_last (c # cs) = [c]"
| "unlink_last [] = []"

definition sn_erase_tail :: "snake_world \<Rightarrow> snake_world" where
  "sn_erase_tail w =
     (case head (snake w) of
        [] \<Rightarrow> w
      | [c] \<Rightarrow> w
      | c # n # cs \<Rightarrow> w\<lparr>snake := (snake w)\<lparr>head := unlink_last (c # n # cs)\<rparr>\<rparr>)"

definition fs_erase_tail :: "snake_world \<Rightarrow> error + snake_world" where
  "fs_erase_tail w =
     (case head (snake w) of
        [] \<Rightarrow> Inl NullDeref
      | [c] \<Rightarrow> Inl NullDeref
      | c # n # cs \<Rightarrow> Inr (w\<lparr>snake := (snake w)\<lparr>head := unlink_last (c # n # cs)\<rparr>\<rparr>))"

text \<open>
  \<^verbatim>\<open>move_snake\<close>. \<open>m\<close> is the outcome of its \<^verbatim>\<open>malloc\<close>, whose result the code
  does not test. The function reads \<^verbatim>\<open>snake.head->x\<close> first, so a snake without a
  segment is a null pointer read.
\<close>

definition sn_move_snake :: "bool \<Rightarrow> snake_world \<Rightarrow> (error + snake_world) option" where
  "sn_move_snake m w =
     (case head (snake w) of
        [] \<Rightarrow> Some (Inl NullDeref)
      | h # hs \<Rightarrow>
          (let new_x = seg_x h + dir_x (snake w);
               new_y = seg_y h + dir_y (snake w)
           in if \<not> m then Some (Inl NullDeref)
              else (let w1 = w\<lparr>snake := (snake w)\<lparr>head := \<lparr>seg_x = new_x, seg_y = new_y\<rparr> # head (snake w)\<rparr>\<rparr>
                    in if new_x = food_x (food w) \<and> new_y = food_y (food w)
                       then sn_spawn_food (w1\<lparr>score := score w1 + 10\<rparr>)
                       else Some (Inr (sn_erase_tail w1)))))"

definition fs_move_snake :: "bool \<Rightarrow> snake_world \<Rightarrow> (error + snake_world) option" where
  "fs_move_snake m w =
     (case head (snake w) of
        [] \<Rightarrow> Some (Inl NullDeref)
      | h # hs \<Rightarrow>
          (let new_x = seg_x h + dir_x (snake w);
               new_y = seg_y h + dir_y (snake w)
           in if \<not> m then Some (Inl NullDeref)
              else (let w1 = w\<lparr>snake := (snake w)\<lparr>head := \<lparr>seg_x = new_x, seg_y = new_y\<rparr> # head (snake w)\<rparr>\<rparr>
                    in if new_x = food_x (food w) \<and> new_y = food_y (food w)
                       then fs_spawn_food (w1\<lparr>score := score w1 + 10\<rparr>)
                       else Some (fs_erase_tail w1))))"

text \<open>
  The key switch of \<^verbatim>\<open>main\<close>, the same in both programs. On \<^verbatim>\<open>q\<close> the program
  calls \<^verbatim>\<open>end_game\<close> and returns from \<^verbatim>\<open>main\<close>: the outcome \<open>Quit\<close>.
\<close>

datatype 'a outcome = Continue 'a | Quit 'a

definition set_dir :: "int \<Rightarrow> int \<Rightarrow> snake_world \<Rightarrow> snake_world" where
  "set_dir dx dy w = w\<lparr>snake := (snake w)\<lparr>dir_x := dx, dir_y := dy\<rparr>\<rparr>"

definition snake_key :: "int \<Rightarrow> snake_world \<Rightarrow> snake_world outcome" where
  "snake_key ch w =
     (if ch = KEY_UP then
        Continue (if \<not> sn_paused w \<and> dir_y (snake w) \<noteq> 1 then set_dir 0 (- 1) w else w)
      else if ch = KEY_DOWN then
        Continue (if \<not> sn_paused w \<and> dir_y (snake w) \<noteq> - 1 then set_dir 0 1 w else w)
      else if ch = KEY_LEFT then
        Continue (if \<not> sn_paused w \<and> dir_x (snake w) \<noteq> 1 then set_dir (- 1) 0 w else w)
      else if ch = KEY_RIGHT then
        Continue (if \<not> sn_paused w \<and> dir_x (snake w) \<noteq> - 1 then set_dir 1 0 w else w)
      else if ch = chr (CHR ''p'') \<or> ch = chr (CHR ''P'') then Continue (w\<lparr>sn_paused := \<not> sn_paused w\<rparr>)
      else if ch = chr (CHR ''q'') \<or> ch = chr (CHR ''Q'') then Quit w
      else Continue w)"

subsection \<open>The platformer\<close>

text \<open>
  The player's position and vertical velocity are C \<^verbatim>\<open>float\<close>s. They are modelled by
  real numbers with exact arithmetic: the properties below rest on the program's
  comparisons, on \<^verbatim>\<open>floor\<close> and on integers of the size of the map, which a
  \<^verbatim>\<open>float\<close> holds exactly, and not on rounding.
\<close>

definition GRAVITY :: real where "GRAVITY = 6 / 10"
definition JUMP_VELO :: real where "JUMP_VELO = - 8"
definition MOVE_SPEED :: int where "MOVE_SPEED = 1"
definition MAX_ENEMIES :: nat where "MAX_ENEMIES = 128"

record mplayer =
  pl_x :: real
  pl_y :: real
  vy :: real
  facing :: int
  on_ground :: bool
  lives :: int
  pl_score :: int

record menemy =
  alive :: bool
  en_x :: int
  en_y :: int
  dir :: int
  left_bound :: int
  right_bound :: int

text \<open>
  The globals of the platformer. \<open>map_data\<close> holds the rows of the map, \<open>ma_enemies\<close>
  the array \<^verbatim>\<open>enemies\<close> of \<open>MAX_ENEMIES\<close> records.
\<close>

record mario =
  term_w :: int
  term_h :: int
  map_w :: int
  map_h :: int
  map_data :: "string list"
  ma_player :: mplayer
  ma_enemies :: "menemy list"
  enemy_count :: int
  cam_x :: int
  ma_paused :: bool
  ma_game_over :: bool
  win :: bool
  ma_rng :: rng

definition level_map :: "string list" where
  "level_map =
     [''                                                                                '',
      ''                                                                                '',
      ''                                                                                '',
      ''                                                                                '',
      ''                                                                                '',
      ''                                                                                '',
      ''                                                                                '',
      ''                           o                                                    '',
      ''                #####                                                           '',
      ''                                                                                '',
      ''         o                                                                      '',
      ''    #######                                                    >               '',
      ''                                                                                '',
      ''                              ###                                             '',
      ''                                                                                '',
      ''                o                                                               '',
      ''           #####                                                                '',
      ''                                                                                '',
      ''                                                             E                '',
      ''============================================     ============================='',
      ''                                                                                '',
      ''                                                                                '']"

text \<open>
  \<^verbatim>\<open>load_map\<close> copies the rows into rows of the width of the longest, filled up with
  spaces. (The allocation of the rows is not modelled.)
\<close>

definition load_map :: "string list \<Rightarrow> mario \<Rightarrow> mario" where
  "load_map src s =
     (let h = int (length src);
          w = fold (\<lambda>row w. if int (length row) > w then int (length row) else w) src 0
      in if h = 0 then s\<lparr>map_h := 0, map_w := w\<rparr>
         else s\<lparr>map_h := h, map_w := w,
                map_data := map (\<lambda>row. row @ replicate (nat w - length row) (CHR '' '')) src\<rparr>)"

definition map_at :: "mario \<Rightarrow> int \<Rightarrow> int \<Rightarrow> char" where
  "map_at s mx my =
     (if mx < 0 \<or> my < 0 \<or> my \<ge> map_h s \<or> mx \<ge> map_w s then CHR '' ''
      else map_data s ! nat my ! nat mx)"

definition set_map_char :: "int \<Rightarrow> int \<Rightarrow> char \<Rightarrow> mario \<Rightarrow> mario" where
  "set_map_char mx my c s =
     (if mx < 0 \<or> my < 0 \<or> my \<ge> map_h s \<or> mx \<ge> map_w s then s
      else s\<lparr>map_data := (map_data s)[nat my := (map_data s ! nat my)[nat mx := c]]\<rparr>)"

definition tile_collide :: "mario \<Rightarrow> int \<Rightarrow> int \<Rightarrow> bool" where
  "tile_collide s tx ty =
     (let ch = map_at s tx ty in if ch = CHR ''#'' \<or> ch = CHR ''='' then True else False)"

text \<open>
  The cells of the map as \<open>(column, row)\<close>, in the order in which the nested loops of
  \<^verbatim>\<open>reset_level\<close> and \<^verbatim>\<open>spawn_enemies_from_map\<close> visit them: row by row from the
  top, each row from the left.
\<close>

definition cells :: "mario \<Rightarrow> (int \<times> int) list" where
  "cells s =
     concat (map (\<lambda>r. map (\<lambda>c. (int c, int r)) [0..<nat (map_w s)]) [0..<nat (map_h s)])"

text \<open>The patrol bounds of an enemy: the two \<^verbatim>\<open>while\<close> loops over the row.\<close>

function expand_left :: "mario \<Rightarrow> int \<Rightarrow> int \<Rightarrow> int" where
  "expand_left s r L =
     (if L - 1 \<ge> 0 \<and> map_at s (L - 1) r = CHR '' '' then expand_left s r (L - 1) else L)"
  by pat_completeness auto
termination
  by (relation "measure (\<lambda>(s, r, L). nat L)") auto

function expand_right :: "mario \<Rightarrow> int \<Rightarrow> int \<Rightarrow> int" where
  "expand_right s r R =
     (if R + 1 < map_w s \<and> map_at s (R + 1) r = CHR '' '' then expand_right s r (R + 1) else R)"
  by pat_completeness auto
termination
  by (relation "measure (\<lambda>(s, r, R). nat (map_w s - R))") auto

declare expand_left.simps [simp del] expand_right.simps [simp del]

text \<open>The body of the loops of \<^verbatim>\<open>spawn_enemies_from_map\<close> for the cell \<open>(c, r)\<close>.\<close>

definition spawn_cell :: "int \<times> int \<Rightarrow> mario \<Rightarrow> mario" where
  "spawn_cell cr s =
     (case cr of (c, r) \<Rightarrow>
        if map_at s c r = CHR ''E'' then
          (let s1 =
             (if enemy_count s < int MAX_ENEMIES then
                (case rand (ma_rng s) of (v, g) \<Rightarrow>
                   s\<lparr>ma_enemies := (ma_enemies s)[nat (enemy_count s) :=
                        (ma_enemies s ! nat (enemy_count s))
                          \<lparr>alive := True, en_x := c, en_y := r,
                           dir := (if c_rem v 2 \<noteq> 0 then 1 else - 1),
                           left_bound := expand_left s r c,
                           right_bound := expand_right s r c\<rparr>],
                     enemy_count := enemy_count s + 1,
                     ma_rng := g\<rparr>)
              else s)
           in set_map_char c r (CHR '' '') s1)
        else s)"

definition spawn_enemies_from_map :: "mario \<Rightarrow> mario" where
  "spawn_enemies_from_map s = fold spawn_cell (cells s) s"

text \<open>
  \<^verbatim>\<open>reset_level\<close>: the spawn position is two rows above the first \<^verbatim>\<open>=\<close> or
  \<^verbatim>\<open>#\<close> of the map (not above row 1), or \<open>(2, 2)\<close> when the map has neither.
\<close>

definition find_ground :: "mario \<Rightarrow> (int \<times> int) option" where
  "find_ground s =
     List.find (\<lambda>cr. map_at s (fst cr) (snd cr) = CHR ''='' \<or> map_at s (fst cr) (snd cr) = CHR ''#'')
       (cells s)"

definition spawn_pos :: "mario \<Rightarrow> int \<times> int" where
  "spawn_pos s =
     (case find_ground s of
        None \<Rightarrow> (2, 2)
      | Some (c, r) \<Rightarrow> (c, if r - 2 < 1 then 1 else r - 2))"

definition reset_level :: "mario \<Rightarrow> mario" where
  "reset_level s =
     (case spawn_pos s of (px, py) \<Rightarrow>
        spawn_enemies_from_map
          (s\<lparr>ma_player :=
               \<lparr>pl_x = of_int px + 1 / 2, pl_y = of_int py, vy = 0, facing = 1,
                on_ground = False, lives = 3, pl_score = 0\<rparr>,
             cam_x := 0, ma_paused := False, ma_game_over := False, win := False,
             enemy_count := 0,
             ma_enemies := map (\<lambda>e. e\<lparr>alive := False\<rparr>) (ma_enemies s)\<rparr>))"

text \<open>
  \<^verbatim>\<open>update_physics\<close>, in its three steps: the vertical move with the collision against
  the tiles, the fall below the map, and the pickup of the tile under the player.
\<close>

definition left_tile :: "mario \<Rightarrow> int" where
  "left_tile s = \<lfloor>pl_x (ma_player s) - 1\<rfloor>"

definition right_tile :: "mario \<Rightarrow> int" where
  "right_tile s = \<lfloor>pl_x (ma_player s) + 1\<rfloor>"

text \<open>\<open>new_y\<close>: the projected height, with the velocity after gravity was added.\<close>

definition new_y :: "mario \<Rightarrow> real" where
  "new_y s = pl_y (ma_player s) + (vy (ma_player s) + GRAVITY) * (1 / 10)"

definition foot_tile :: "mario \<Rightarrow> int" where
  "foot_tile s = \<lfloor>new_y s + 9 / 10\<rfloor>"

definition move_vertical :: "mario \<Rightarrow> mario" where
  "move_vertical s =
     (let p = (ma_player s)\<lparr>vy := vy (ma_player s) + GRAVITY\<rparr>
      in if vy p \<ge> 0 then
           (if tile_collide s (left_tile s) (foot_tile s) \<or> tile_collide s (right_tile s) (foot_tile s) then
              s\<lparr>ma_player := p\<lparr>on_ground := True, vy := 0, pl_y := of_int (foot_tile s) - 1\<rparr>\<rparr>
            else s\<lparr>ma_player := p\<lparr>on_ground := False, pl_y := new_y s\<rparr>\<rparr>)
         else
           (let head_tile = \<lfloor>new_y s\<rfloor>
            in if tile_collide s (left_tile s) head_tile \<or> tile_collide s (right_tile s) head_tile then
                 s\<lparr>ma_player := p\<lparr>vy := 0, pl_y := of_int head_tile + 1\<rparr>\<rparr>
               else s\<lparr>ma_player := p\<lparr>pl_y := new_y s, on_ground := False\<rparr>\<rparr>))"

definition fall_below :: "mario \<Rightarrow> mario" where
  "fall_below s =
     (if pl_y (ma_player s) > of_int (map_h s - 1) then
        (let s1 = s\<lparr>ma_player := (ma_player s)\<lparr>lives := lives (ma_player s) - 1\<rparr>\<rparr>
         in if lives (ma_player s1) \<le> 0 then s1\<lparr>ma_game_over := True\<rparr>
            else reset_level s1)
      else s)"

definition pickup :: "mario \<Rightarrow> mario" where
  "pickup s =
     (let px_floor = \<lfloor>pl_x (ma_player s)\<rfloor>;
          py_floor = \<lfloor>pl_y (ma_player s) + 9 / 10\<rfloor>;
          under = map_at s px_floor py_floor
      in if under = CHR ''o'' then
           set_map_char px_floor py_floor (CHR '' '')
             (s\<lparr>ma_player := (ma_player s)\<lparr>pl_score := pl_score (ma_player s) + 5\<rparr>\<rparr>)
         else if under = CHR ''>'' then s\<lparr>win := True\<rparr>
         else s)"

definition update_physics :: "mario \<Rightarrow> mario" where
  "update_physics s = pickup (fall_below (move_vertical s))"

text \<open>
  \<^verbatim>\<open>handle_input\<close>. \<open>move_key\<close> is the \<^verbatim>\<open>switch\<close> on a movement or jump key,
  \<open>handle_key\<close> the body of the loop for one key; the loop ends with the pending keys, or
  at a \<^verbatim>\<open>q\<close>, where the function returns.
\<close>

definition move_key :: "int \<Rightarrow> mario \<Rightarrow> mario" where
  "move_key ch s =
     (let p = ma_player s in
      if ch = KEY_LEFT \<or> ch = chr (CHR ''a'') \<or> ch = chr (CHR ''A'') then
        (let nx = pl_x p - of_int MOVE_SPEED;
             left_tile = \<lfloor>nx - 1\<rfloor>;
             y_top = \<lfloor>pl_y p\<rfloor>;
             y_bot = \<lfloor>pl_y p + 9 / 10\<rfloor>
         in if \<not> tile_collide s left_tile y_top \<and> \<not> tile_collide s left_tile y_bot
            then s\<lparr>ma_player := p\<lparr>pl_x := nx, facing := - 1\<rparr>\<rparr>
            else s\<lparr>ma_player := p\<lparr>pl_x := of_int (left_tile + 1) + 1, facing := - 1\<rparr>\<rparr>)
      else if ch = KEY_RIGHT \<or> ch = chr (CHR ''d'') \<or> ch = chr (CHR ''D'') then
        (let nx = pl_x p + of_int MOVE_SPEED;
             right_tile = \<lfloor>nx + 1\<rfloor>;
             y_top = \<lfloor>pl_y p\<rfloor>;
             y_bot = \<lfloor>pl_y p + 9 / 10\<rfloor>
         in if \<not> tile_collide s right_tile y_top \<and> \<not> tile_collide s right_tile y_bot
            then s\<lparr>ma_player := p\<lparr>pl_x := nx, facing := 1\<rparr>\<rparr>
            else s\<lparr>ma_player := p\<lparr>pl_x := of_int (right_tile - 1) - 1, facing := 1\<rparr>\<rparr>)
      else if ch = chr (CHR '' '') \<or> ch = chr (CHR ''w'') \<or> ch = chr (CHR ''W'') \<or> ch = KEY_UP then
        (if on_ground p then s\<lparr>ma_player := p\<lparr>vy := JUMP_VELO, on_ground := False\<rparr>\<rparr> else s)
      else s)"

definition handle_key :: "int \<Rightarrow> mario \<Rightarrow> mario" where
  "handle_key ch s =
     (if ch = chr (CHR ''p'') \<or> ch = chr (CHR ''P'') then s\<lparr>ma_paused := \<not> ma_paused s\<rparr>
      else if ch = chr (CHR ''q'') \<or> ch = chr (CHR ''Q'') then s\<lparr>ma_game_over := True\<rparr>
      else if ma_paused s \<or> win s then s
      else move_key ch s)"

fun handle_input :: "int list \<Rightarrow> mario \<Rightarrow> mario" where
  "handle_input [] s = s"
| "handle_input (ch # ks) s =
     (if ch = chr (CHR ''q'') \<or> ch = chr (CHR ''Q'') then handle_key ch s
      else handle_input ks (handle_key ch s))"

text \<open>
  \<^verbatim>\<open>check_enemy_collisions\<close>. \<open>enemy_contact\<close> is the body of its loop for the enemy
  of index \<open>i\<close>; \<open>ptx\<close> and \<open>pty\<close> are the player's tile, read once before the loop.
  \<open>touches\<close> is the test for a contact, \<open>stomps\<close> the test that makes a contact a stomp.
\<close>

definition touches :: "int \<Rightarrow> int \<Rightarrow> menemy \<Rightarrow> bool" where
  "touches ptx pty e = (abs (en_x e - ptx) \<le> 1 \<and> abs (en_y e - pty) \<le> 1)"

definition stomps :: "mplayer \<Rightarrow> menemy \<Rightarrow> bool" where
  "stomps p e = (vy p > 0 \<and> (pl_y p + 9 / 10) - of_int (en_y e) < 3 / 4)"

definition enemy_contact :: "int \<Rightarrow> int \<Rightarrow> nat \<Rightarrow> mario \<Rightarrow> mario" where
  "enemy_contact ptx pty i s =
     (let e = ma_enemies s ! i; p = ma_player s in
      if \<not> alive e then s
      else if touches ptx pty e then
        (if stomps p e then
           s\<lparr>ma_enemies := (ma_enemies s)[i := e\<lparr>alive := False\<rparr>],
             ma_player := p\<lparr>pl_score := pl_score p + 20, vy := JUMP_VELO * (6 / 10),
                            on_ground := False\<rparr>\<rparr>
         else
           (let p1 = p\<lparr>lives := lives p - 1\<rparr>
            in if lives p1 \<le> 0 then s\<lparr>ma_player := p1, ma_game_over := True\<rparr>
               else s\<lparr>ma_player := p1\<lparr>pl_x := 5 / 2, pl_y := 2, vy := 0\<rparr>\<rparr>))
      else s)"

definition check_enemy_collisions :: "mario \<Rightarrow> mario" where
  "check_enemy_collisions s =
     (let ptx = \<lfloor>pl_x (ma_player s)\<rfloor>;
          pty = \<lfloor>pl_y (ma_player s) + 1 / 2\<rfloor>
      in fold (enemy_contact ptx pty) [0..<nat (enemy_count s)] s)"

subsection \<open>Notions and example states for the statements\<close>

text \<open>The solid tiles, as \<^verbatim>\<open>reset_level\<close> and \<^verbatim>\<open>tile_collide\<close> test them.\<close>

definition ground :: "char \<Rightarrow> bool" where
  "ground ch = (ch = CHR ''='' \<or> ch = CHR ''#'')"

text \<open>
  The cell \<^verbatim>\<open>spawn_food\<close> draws in its \<open>j\<close>-th round from now: the loop calls
  \<^verbatim>\<open>rand\<close> twice a round.
\<close>

definition draw_x :: "int \<Rightarrow> int \<Rightarrow> rng \<Rightarrow> nat \<Rightarrow> int" where
  "draw_x wx ox g j = c_rem (int (rand_seq g (rand_calls g + 2 * j))) wx + ox"

definition draw_y :: "int \<Rightarrow> int \<Rightarrow> rng \<Rightarrow> nat \<Rightarrow> int" where
  "draw_y wy oy g j = c_rem (int (rand_seq g (rand_calls g + 2 * j + 1))) wy + oy"

text \<open>What a run of the loop of \<^verbatim>\<open>spawn_food\<close> that ends leaves behind.\<close>

definition food_ok :: "snake_world \<Rightarrow> error + snake_world \<Rightarrow> bool" where
  "food_ok w r =
     (case r of
        Inl e \<Rightarrow> e = DivByZero
      | Inr w' \<Rightarrow> snake w' = snake w \<and> score w' = score w
           \<and> \<not> conflict (head (snake w)) (food_x (food w')) (food_y (food w')))"


text \<open>A shooter on a terminal of 80 columns and 24 rows, as \<^verbatim>\<open>init_game\<close> leaves it.\<close>

definition shooter0 :: shooter where
  "shooter0 =
     \<lparr>max_x = 80, max_y = 24, player = \<lparr>p_x = 40, p_y = 21, p_lives = 3, p_score = 0\<rparr>,
      enemies = [], bullets = [], spawn_counter = 0, spawn_rate = 40, enemy_speed = 8,
      enemy_fire_chance = 200, tick_count = 0, level = 1, game_over = False, paused = False\<rparr>"




text \<open>
  A snake of three segments heading right on the same terminal, the food in the cell before
  its head. The first two values of \<^verbatim>\<open>rand\<close> draw the cell \<open>(40, 12)\<close> of the head in
  both programs, the next two a free cell.
\<close>

definition snake0 :: snake_world where
  "snake0 =
     \<lparr>sn_max_x = 80, sn_max_y = 24, play_x0 = 20, play_y0 = 6, play_w = 40, play_h = 12,
      snake = \<lparr>head = [\<lparr>seg_x = 40, seg_y = 12\<rparr>, \<lparr>seg_x = 39, seg_y = 12\<rparr>, \<lparr>seg_x = 38, seg_y = 12\<rparr>],
               dir_x = 1, dir_y = 0\<rparr>,
      food = \<lparr>food_x = 41, food_y = 12\<rparr>, score = 0, sn_paused = False, delay_time = 100000,
      sn_rng = \<lparr>rand_seq = (\<lambda>n. if n = 0 then 741 else if n = 1 then 115 else if n = 2 then 3 else 1),
                rand_calls = 0\<rparr>\<rparr>"

text \<open>
  The platformer before \<^verbatim>\<open>load_map\<close>, and with the map of the program loaded.
\<close>

definition blank :: mario where
  "blank =
     \<lparr>term_w = 80, term_h = 24, map_w = 0, map_h = 0, map_data = [],
      ma_player = \<lparr>pl_x = 0, pl_y = 0, vy = 0, facing = 0, on_ground = False, lives = 0, pl_score = 0\<rparr>,
      ma_enemies = replicate 128
        \<lparr>alive = False, en_x = 0, en_y = 0, dir = 0, left_bound = 0, right_bound = 0\<rparr>,
      enemy_count = 0, cam_x = 0, ma_paused = False, ma_game_over = False, win = False,
      ma_rng = \<lparr>rand_seq = (\<lambda>n. n), rand_calls = 0\<rparr>\<rparr>"

definition loaded :: mario where
  "loaded = load_map level_map blank"

text \<open>
  The level in play: the enemy of the map patrols row 18 (\<^verbatim>\<open>reset_level\<close> has spawned
  it at column 61 and cleared its marker), and the player has three lives.
\<close>

definition in_play :: "mplayer \<Rightarrow> mario" where
  "in_play p =
     (set_map_char 61 18 (CHR '' '') loaded)
       \<lparr>ma_player := p,
        ma_enemies := (ma_enemies blank)
          [0 := \<lparr>alive = True, en_x = 61, en_y = 18, dir = - 1, left_bound = 0, right_bound = 79\<rparr>],
        enemy_count := 1\<rparr>"

text \<open>The player walking into the enemy from the left, on the ground of row 19.\<close>

definition walking :: mplayer where
  "walking = \<lparr>pl_x = 121 / 2, pl_y = 18, vy = 0, facing = 1, on_ground = True, lives = 3, pl_score = 0\<rparr>"

text \<open>
  The player in the gap of the ground (columns 44 to 48), nine ticks after walking off the
  edge: the next tick takes it below the last row.
\<close>

definition falling :: mplayer where
  "falling = \<lparr>pl_x = 93 / 2, pl_y = 207 / 10, vy = 54 / 10, facing = 1, on_ground = False, lives = 3, pl_score = 0\<rparr>"


text \<open>The player coming down on the ground left of the gap.\<close>

definition landing :: mplayer where
  "landing = \<lparr>pl_x = 33 / 2, pl_y = 361 / 20, vy = 6 / 10, facing = 1, on_ground = False, lives = 3, pl_score = 0\<rparr>"

section \<open>Properties of the shooters\<close>

lemma bullets_loop_eq:
  "bullets_loop my bs =
     filter (\<lambda>b. 2 < b_y b \<and> b_y b < my - 2) (map (\<lambda>b. b\<lparr>b_y := b_y b + b_dy b\<rparr>) bs)"
  by (induction bs) (auto simp: Let_def)

text \<open>
  C8. After \<^verbatim>\<open>update_bullets\<close>, in both shooters, every bullet left in the list has its
  row strictly between 2 and \<open>max_y - 2\<close>. The list left is the list of the bullets, each
  moved by its step, without those that came onto or beyond one of the two bounds: such a
  bullet is unlinked in the same update, and no other is.
\<close>

theorem update_bullets_in_bounds:
  "(\<forall>b \<in> set (bullets (update_bullets s)). 2 < b_y b \<and> b_y b < max_y s - 2)
   \<and> bullets (update_bullets s)
       = filter (\<lambda>b. 2 < b_y b \<and> b_y b < max_y s - 2)
           (map (\<lambda>b. b\<lparr>b_y := b_y b + b_dy b\<rparr>) (bullets s))"
  by (simp add: update_bullets_def bullets_loop_eq)

theorem update_bullets_in_bounds_witness:
  "bullets (update_bullets (shooter0\<lparr>bullets :=
      [\<lparr>b_x = 40, b_y = 3, b_dy = - 1\<rparr>, \<lparr>b_x = 12, b_y = 21, b_dy = 1\<rparr>,
       \<lparr>b_x = 7, b_y = 10, b_dy = - 1\<rparr>]\<rparr>))
   = [\<lparr>b_x = 7, b_y = 9, b_dy = - 1\<rparr>]"
  using update_bullets_in_bounds [of "shooter0\<lparr>bullets :=
      [\<lparr>b_x = 40, b_y = 3, b_dy = - 1\<rparr>, \<lparr>b_x = 12, b_y = 21, b_dy = 1\<rparr>,
       \<lparr>b_x = 7, b_y = 10, b_dy = - 1\<rparr>]\<rparr>"]
  by (simp add: shooter0_def)




text \<open>
  Beyond such bounds the tests of the code are not a distance: 32-bit subtraction wraps.
\<close>

lemma absdiff_wraps: "absdiff (2 ^ 31 - 1) (- 1) = - (2 ^ 31) \<and> c_abs (wrap32 ((2 ^ 31 - 1) - (- 1))) = - (2 ^ 31)"
  by (simp add: absdiff_def c_abs_def wrap32_def)








lemma add_score_enemies: "enemies (add_score n s) = enemies s"
  by (simp add: add_score_def)

















text \<open>
  A failed allocation in \<^verbatim>\<open>ascii_shooter.c\<close>: the function returns at once, and the
  lists are as before.
\<close>

lemma as_add_null_skips:
  "as_add_enemy False x y sp s = s \<and> as_add_bullet False x y dy s = s"
  by (simp add: as_add_enemy_def as_add_bullet_def)

text \<open>
  C4. In \<^verbatim>\<open>shooting_game.c\<close> a failed allocation is not skipped: \<^verbatim>\<open>add_enemy\<close> and
  \<^verbatim>\<open>add_bullet\<close> write the fields of the new record through the null pointer.
  \<^verbatim>\<open>ascii_shooter.c\<close> tests the pointer and leaves the state as it was.
\<close>

theorem sg_add_null_deref:
  "sg_add_enemy False 40 3 8 shooter0 = Inl NullDeref
   \<and> sg_add_bullet False 40 20 (- 1) shooter0 = Inl NullDeref
   \<and> as_add_enemy False 40 3 8 shooter0 = shooter0
   \<and> as_add_bullet False 40 20 (- 1) shooter0 = shooter0"
  by (simp add: sg_add_enemy_def sg_add_bullet_def as_add_enemy_def as_add_bullet_def)

text \<open>
  A key while \<^verbatim>\<open>ascii_shooter.c\<close> is paused: \<^verbatim>\<open>p\<close> ends the pause, \<^verbatim>\<open>q\<close> sets
  \<open>game_over\<close>, and every other key leaves the state as it is.
\<close>

lemma as_paused_key:
  "paused s \<Longrightarrow>
     as_process_key ch m s =
       (if ch = chr (CHR ''p'') \<or> ch = chr (CHR ''P'') then s\<lparr>paused := False\<rparr>
        else if ch = chr (CHR ''q'') \<or> ch = chr (CHR ''Q'') then s\<lparr>game_over := True\<rparr>
        else s)"
  by (simp add: as_process_key_def chr_def KEY_LEFT_def KEY_RIGHT_def)

text \<open>
  C1. \<^verbatim>\<open>shooting_game.c\<close> does not test \<open>paused\<close> in \<^verbatim>\<open>process_input\<close>: while the
  game is paused the left arrow moves the ship by two columns and the space bar adds a
  bullet, where \<^verbatim>\<open>ascii_shooter.c\<close> leaves the state unchanged on both keys.
\<close>

theorem sg_input_while_paused:
  "sg_process_key KEY_LEFT True (shooter0\<lparr>paused := True\<rparr>)
     = Inr (shooter0\<lparr>paused := True, player := \<lparr>p_x = 38, p_y = 21, p_lives = 3, p_score = 0\<rparr>\<rparr>)
   \<and> sg_process_key (chr (CHR '' '')) True (shooter0\<lparr>paused := True\<rparr>)
     = Inr (shooter0\<lparr>paused := True, bullets := [\<lparr>b_x = 40, b_y = 20, b_dy = - 1\<rparr>]\<rparr>)
   \<and> as_process_key KEY_LEFT True (shooter0\<lparr>paused := True\<rparr>) = shooter0\<lparr>paused := True\<rparr>
   \<and> as_process_key (chr (CHR '' '')) True (shooter0\<lparr>paused := True\<rparr>) = shooter0\<lparr>paused := True\<rparr>"
  by (simp add: sg_process_key_def as_process_key_def sg_add_bullet_def shooter0_def chr_def
      KEY_LEFT_def KEY_RIGHT_def)

section \<open>Properties of the snake games\<close>

lemma conflict_iff: "conflict cs fx fy \<longleftrightarrow> (\<exists>c\<in>set cs. seg_x c = fx \<and> seg_y c = fy)"
  by (induction cs) auto

text \<open>
  Partial correctness of the loop of \<^verbatim>\<open>spawn_food\<close>, by the induction rule of the
  partial function: a run that ends has either stopped at a remainder by zero, or left the
  snake and the score alone and put the food on a cell free of the snake.
\<close>

lemma food_loop_sound:
  assumes a: "food_loop wx ox wy oy w = Some r"
  shows "food_ok w r"
proof (rule food_loop.raw_induct [OF _ a])
  fix loop wx ox wy oy w r
  assume IH: "\<And>wx ox wy oy w r. loop wx ox wy oy w = Some r \<Longrightarrow> food_ok w r"
    and body: "(case rand (sn_rng w) of
        (r1, g1) \<Rightarrow>
          (if wx = 0 then Some (Inl DivByZero)
           else (case rand g1 of
             (r2, g2) \<Rightarrow>
               (if wy = 0 then Some (Inl DivByZero)
                else (let fx = c_rem r1 wx + ox;
                          fy = c_rem r2 wy + oy
                      in if conflict (head (snake w)) fx fy
                         then loop wx ox wy oy (w\<lparr>sn_rng := g2\<rparr>)
                         else Some (Inr (w\<lparr>sn_rng := g2, food := \<lparr>food_x = fx, food_y = fy\<rparr>\<rparr>))))))) = Some r"
  obtain r1 g1 where g1: "rand (sn_rng w) = (r1, g1)" by (cases "rand (sn_rng w)")
  obtain r2 g2 where g2: "rand g1 = (r2, g2)" by (cases "rand g1")
  show "food_ok w r"
  proof (cases "wx = 0 \<or> wy = 0")
    case True
    with body g1 g2 show ?thesis by (auto simp: food_ok_def split: if_splits)
  next
    case False
    let ?fx = "c_rem r1 wx + ox"
    let ?fy = "c_rem r2 wy + oy"
    show ?thesis
    proof (cases "conflict (head (snake w)) ?fx ?fy")
      case True
      with body False g1 g2 have "loop wx ox wy oy (w\<lparr>sn_rng := g2\<rparr>) = Some r"
        by (simp add: Let_def)
      from IH [OF this] show ?thesis by (simp add: food_ok_def split: sum.splits)
    next
      case free: False
      with body False g1 g2
      have "r = Inr (w\<lparr>sn_rng := g2, food := \<lparr>food_x = ?fx, food_y = ?fy\<rparr>\<rparr>)"
        by (simp add: Let_def)
      with free show ?thesis by (simp add: food_ok_def)
    qed
  qed
qed

text \<open>
  The loop ends as soon as \<^verbatim>\<open>rand\<close> draws a free cell: if the draw of some round
  \<open>j\<close> is free of the snake (and no divisor is zero), \<^verbatim>\<open>spawn_food\<close> returns.
\<close>

lemma food_loop_returns:
  assumes "wx \<noteq> 0" "wy \<noteq> 0"
    and "\<not> conflict (head (snake w)) (draw_x wx ox (sn_rng w) j) (draw_y wy oy (sn_rng w) j)"
  shows "\<exists>w'. food_loop wx ox wy oy w = Some (Inr w')"
  using assms(3)
proof (induction j arbitrary: w)
  case 0
  then show ?case using assms(1,2)
    by (subst food_loop.simps) (simp add: rand_def draw_x_def draw_y_def Let_def)
next
  case (Suc j)
  let ?g2 = "(sn_rng w)\<lparr>rand_calls := Suc (Suc (rand_calls (sn_rng w)))\<rparr>"
  show ?case
  proof (cases "conflict (head (snake w)) (draw_x wx ox (sn_rng w) 0) (draw_y wy oy (sn_rng w) 0)")
    case True
    have "\<not> conflict (head (snake (w\<lparr>sn_rng := ?g2\<rparr>)))
            (draw_x wx ox (sn_rng (w\<lparr>sn_rng := ?g2\<rparr>)) j)
            (draw_y wy oy (sn_rng (w\<lparr>sn_rng := ?g2\<rparr>)) j)"
      using Suc.prems by (simp add: draw_x_def draw_y_def)
    from Suc.IH [OF this]
    obtain w' where "food_loop wx ox wy oy (w\<lparr>sn_rng := ?g2\<rparr>) = Some (Inr w')" ..
    then show ?thesis using True assms(1,2)
      by (subst food_loop.simps) (simp add: rand_def draw_x_def draw_y_def Let_def)
  next
    case False
    then show ?thesis using assms(1,2)
      by (subst food_loop.simps) (simp add: rand_def draw_x_def draw_y_def Let_def)
  qed
qed

text \<open>
  C9. Whenever \<^verbatim>\<open>spawn_food\<close> returns, in either snake game, the food cell it has
  chosen differs from the cell of every segment of the snake, and the snake is as it was:
  a drawn cell that matches a segment is rejected and another is drawn.
\<close>

theorem spawn_food_avoids_snake:
  "(sn_spawn_food w = Some (Inr w') \<longrightarrow>
      snake w' = snake w
      \<and> (\<forall>c\<in>set (head (snake w')). \<not> (seg_x c = food_x (food w') \<and> seg_y c = food_y (food w'))))
   \<and> (fs_spawn_food w = Some (Inr w') \<longrightarrow>
      snake w' = snake w
      \<and> (\<forall>c\<in>set (head (snake w')). \<not> (seg_x c = food_x (food w') \<and> seg_y c = food_y (food w'))))"
proof (intro conjI impI)
  assume "sn_spawn_food w = Some (Inr w')"
  then have ok: "food_ok w (Inr w')" unfolding sn_spawn_food_def by (rule food_loop_sound)
  then show "snake w' = snake w" by (simp add: food_ok_def)
  from ok show "\<forall>c\<in>set (head (snake w')). \<not> (seg_x c = food_x (food w') \<and> seg_y c = food_y (food w'))"
    by (simp add: food_ok_def conflict_iff)
next
  assume "fs_spawn_food w = Some (Inr w')"
  then have ok: "food_ok w (Inr w')" unfolding fs_spawn_food_def by (rule food_loop_sound)
  then show "snake w' = snake w" by (simp add: food_ok_def)
  from ok show "\<forall>c\<in>set (head (snake w')). \<not> (seg_x c = food_x (food w') \<and> seg_y c = food_y (food w'))"
    by (simp add: food_ok_def conflict_iff)
qed

text \<open>
  \<^verbatim>\<open>spawn_food\<close> on \<open>snake0\<close>: in both programs the first draw falls on the head of
  the snake and is rejected, and the second is free.
\<close>

lemma sn_spawn_food_snake0:
  "sn_spawn_food snake0 =
     Some (Inr (snake0\<lparr>sn_rng := (sn_rng snake0)\<lparr>rand_calls := 4\<rparr>, food := \<lparr>food_x = 24, food_y = 8\<rparr>\<rparr>))"
  apply (simp add: sn_spawn_food_def snake0_def)
  apply (subst food_loop.simps)
  apply (simp add: rand_def c_rem_def)
  apply (subst food_loop.simps)
  apply (simp add: rand_def c_rem_def)
  done

lemma fs_spawn_food_snake0:
  "fs_spawn_food snake0 =
     Some (Inr (snake0\<lparr>sn_rng := (sn_rng snake0)\<lparr>rand_calls := 4\<rparr>, food := \<lparr>food_x = 4, food_y = 3\<rparr>\<rparr>))"
  apply (simp add: fs_spawn_food_def snake0_def)
  apply (subst food_loop.simps)
  apply (simp add: rand_def c_rem_def)
  apply (subst food_loop.simps)
  apply (simp add: rand_def c_rem_def)
  done

theorem spawn_food_avoids_snake_witness:
  "sn_spawn_food snake0 =
     Some (Inr (snake0\<lparr>sn_rng := (sn_rng snake0)\<lparr>rand_calls := 4\<rparr>, food := \<lparr>food_x = 24, food_y = 8\<rparr>\<rparr>))
   \<and> fs_spawn_food snake0 =
     Some (Inr (snake0\<lparr>sn_rng := (sn_rng snake0)\<lparr>rand_calls := 4\<rparr>, food := \<lparr>food_x = 4, food_y = 3\<rparr>\<rparr>))
   \<and> \<lparr>seg_x = 24, seg_y = 8\<rparr> \<notin> set (head (snake snake0))
   \<and> \<lparr>seg_x = 4, seg_y = 3\<rparr> \<notin> set (head (snake snake0))"
  using
    spawn_food_avoids_snake [of snake0
      "snake0\<lparr>sn_rng := (sn_rng snake0)\<lparr>rand_calls := 4\<rparr>, food := \<lparr>food_x = 24, food_y = 8\<rparr>\<rparr>"]
    spawn_food_avoids_snake [of snake0
      "snake0\<lparr>sn_rng := (sn_rng snake0)\<lparr>rand_calls := 4\<rparr>, food := \<lparr>food_x = 4, food_y = 3\<rparr>\<rparr>"]
    sn_spawn_food_snake0 fs_spawn_food_snake0
  by (simp add: snake0_def)

lemma length_unlink_last: "length (unlink_last (c # n # cs)) = Suc (length cs)"
  by (induction cs arbitrary: c n) auto

lemma hd_unlink_last: "hd (unlink_last (c # n # cs)) = c"
  by (cases cs) auto

lemma unlink_last_butlast: "unlink_last (c # n # cs) = butlast (c # n # cs)"
  by (induction cs arbitrary: c n) auto

text \<open>
  C5. \<^verbatim>\<open>move_snake\<close> is what a tick that is not paused calls, once. When it returns,
  in either snake game, the head of the snake is the cell of the head before plus the
  heading \<open>(dir_x, dir_y)\<close>; the snake is one segment longer than before when that cell
  is the food cell, and as long as before otherwise. (This holds for every snake with a
  segment, so for every snake of two segments or more.) And it does return: always on a
  tick that eats no food, and on a tick that eats the food as soon as some round \<open>j\<close> of
  \<^verbatim>\<open>spawn_food\<close> draws a cell free of the grown snake (no divisor of its draws being
  zero), then with the snake grown by the new head.
\<close>

theorem move_snake_head_and_length:
  assumes "head (snake w) = h # hs"
  shows
    "(sn_move_snake m w = Some (Inr w') \<longrightarrow>
        hd (head (snake w')) = \<lparr>seg_x = seg_x h + dir_x (snake w), seg_y = seg_y h + dir_y (snake w)\<rparr>
        \<and> length (head (snake w')) =
            (if seg_x h + dir_x (snake w) = food_x (food w) \<and> seg_y h + dir_y (snake w) = food_y (food w)
             then length (head (snake w)) + 1 else length (head (snake w))))
     \<and> (fs_move_snake m w = Some (Inr w') \<longrightarrow>
        hd (head (snake w')) = \<lparr>seg_x = seg_x h + dir_x (snake w), seg_y = seg_y h + dir_y (snake w)\<rparr>
        \<and> length (head (snake w')) =
            (if seg_x h + dir_x (snake w) = food_x (food w) \<and> seg_y h + dir_y (snake w) = food_y (food w)
             then length (head (snake w)) + 1 else length (head (snake w))))
     \<and> (m \<and> \<not> (seg_x h + dir_x (snake w) = food_x (food w) \<and> seg_y h + dir_y (snake w) = food_y (food w)) \<longrightarrow>
        (\<exists>v. sn_move_snake m w = Some (Inr v)) \<and> (\<exists>v. fs_move_snake m w = Some (Inr v)))
     \<and> (m \<and> seg_x h + dir_x (snake w) = food_x (food w) \<and> seg_y h + dir_y (snake w) = food_y (food w)
          \<and> play_w w - 2 \<noteq> 0 \<and> play_h w - 2 \<noteq> 0
          \<and> \<not> conflict (\<lparr>seg_x = food_x (food w), seg_y = food_y (food w)\<rparr> # h # hs)
                (draw_x (play_w w - 2) (play_x0 w + 1) (sn_rng w) j)
                (draw_y (play_h w - 2) (play_y0 w + 1) (sn_rng w) j) \<longrightarrow>
        (\<exists>v. sn_move_snake m w = Some (Inr v)
             \<and> head (snake v) = \<lparr>seg_x = food_x (food w), seg_y = food_y (food w)\<rparr> # h # hs))
     \<and> (m \<and> seg_x h + dir_x (snake w) = food_x (food w) \<and> seg_y h + dir_y (snake w) = food_y (food w)
          \<and> sn_max_x w - 2 \<noteq> 0 \<and> sn_max_y w - 3 \<noteq> 0
          \<and> \<not> conflict (\<lparr>seg_x = food_x (food w), seg_y = food_y (food w)\<rparr> # h # hs)
                (draw_x (sn_max_x w - 2) 1 (sn_rng w) j)
                (draw_y (sn_max_y w - 3) 2 (sn_rng w) j) \<longrightarrow>
        (\<exists>v. fs_move_snake m w = Some (Inr v)
             \<and> head (snake v) = \<lparr>seg_x = food_x (food w), seg_y = food_y (food w)\<rparr> # h # hs))"
proof -
  let ?nh = "\<lparr>seg_x = seg_x h + dir_x (snake w), seg_y = seg_y h + dir_y (snake w)\<rparr>"
  let ?eats = "seg_x h + dir_x (snake w) = food_x (food w) \<and> seg_y h + dir_y (snake w) = food_y (food w)"
  let ?w1 = "w\<lparr>snake := (snake w)\<lparr>head := ?nh # h # hs\<rparr>\<rparr>"
  let ?fh = "\<lparr>seg_x = food_x (food w), seg_y = food_y (food w)\<rparr>"
  let ?w2 = "w\<lparr>snake := (snake w)\<lparr>head := ?fh # h # hs\<rparr>, score := score w + 10\<rparr>"
  have grown: "snake v = snake ?w1 \<Longrightarrow>
      hd (head (snake v)) = ?nh \<and> length (head (snake v)) = length (head (snake w)) + 1" for v
    using assms by simp
  have dropped: "hd (unlink_last (?nh # h # hs)) = ?nh
      \<and> length (unlink_last (?nh # h # hs)) = length (head (snake w))"
    using assms by (simp add: hd_unlink_last length_unlink_last)
  have sn: "hd (head (snake w')) = ?nh
      \<and> length (head (snake w')) = (if ?eats then length (head (snake w)) + 1 else length (head (snake w)))"
    if r: "sn_move_snake m w = Some (Inr w')"
  proof (cases ?eats)
    case True
    with r assms have "food_loop (play_w w - 2) (play_x0 w + 1) (play_h w - 2) (play_y0 w + 1)
        (?w1\<lparr>score := score w + 10\<rparr>) = Some (Inr w')"
      by (simp add: sn_move_snake_def sn_spawn_food_def Let_def split: if_splits)
    from food_loop_sound [OF this] have "snake w' = snake ?w1" by (simp add: food_ok_def)
    from grown [OF this] True show ?thesis by simp
  next
    case False
    with r assms have "w' = sn_erase_tail ?w1"
      by (auto simp: sn_move_snake_def Let_def split: if_splits)
    then show ?thesis using False dropped by (simp add: sn_erase_tail_def)
  qed
  have fs: "hd (head (snake w')) = ?nh
      \<and> length (head (snake w')) = (if ?eats then length (head (snake w)) + 1 else length (head (snake w)))"
    if r: "fs_move_snake m w = Some (Inr w')"
  proof (cases ?eats)
    case True
    with r assms have "food_loop (sn_max_x w - 2) 1 (sn_max_y w - 3) 2
        (?w1\<lparr>score := score w + 10\<rparr>) = Some (Inr w')"
      by (simp add: fs_move_snake_def fs_spawn_food_def Let_def split: if_splits)
    from food_loop_sound [OF this] have "snake w' = snake ?w1" by (simp add: food_ok_def)
    from grown [OF this] True show ?thesis by simp
  next
    case False
    with r assms have "Inr w' = fs_erase_tail ?w1"
      by (auto simp: fs_move_snake_def Let_def split: if_splits)
    then show ?thesis using False dropped by (simp add: fs_erase_tail_def)
  qed
  have ret: "(\<exists>v. sn_move_snake m w = Some (Inr v)) \<and> (\<exists>v. fs_move_snake m w = Some (Inr v))"
    if "m" "\<not> ?eats"
    using that assms by (auto simp: sn_move_snake_def fs_move_snake_def fs_erase_tail_def Let_def)
  have loop_ret: "\<exists>v. food_loop wx ox wy oy ?w2 = Some (Inr v) \<and> head (snake v) = ?fh # h # hs"
    if "wx \<noteq> 0" "wy \<noteq> 0"
      and "\<not> conflict (?fh # h # hs) (draw_x wx ox (sn_rng w) j) (draw_y wy oy (sn_rng w) j)"
    for wx ox wy oy
  proof -
    have "\<not> conflict (head (snake ?w2)) (draw_x wx ox (sn_rng ?w2) j) (draw_y wy oy (sn_rng ?w2) j)"
      using that(3) by simp
    from food_loop_returns [OF that(1,2) this]
    obtain v where v: "food_loop wx ox wy oy ?w2 = Some (Inr v)" ..
    from food_loop_sound [OF v] have "snake v = snake ?w2" by (simp add: food_ok_def)
    with v show ?thesis by simp
  qed
  have sn_eat: "\<exists>v. sn_move_snake m w = Some (Inr v) \<and> head (snake v) = ?fh # h # hs"
    if "m" "?eats" "play_w w - 2 \<noteq> 0" "play_h w - 2 \<noteq> 0"
      "\<not> conflict (?fh # h # hs)
          (draw_x (play_w w - 2) (play_x0 w + 1) (sn_rng w) j)
          (draw_y (play_h w - 2) (play_y0 w + 1) (sn_rng w) j)"
    using loop_ret [OF that(3,4,5)] that(1,2) assms
    by (simp add: sn_move_snake_def sn_spawn_food_def)
  have fs_eat: "\<exists>v. fs_move_snake m w = Some (Inr v) \<and> head (snake v) = ?fh # h # hs"
    if "m" "?eats" "sn_max_x w - 2 \<noteq> 0" "sn_max_y w - 3 \<noteq> 0"
      "\<not> conflict (?fh # h # hs)
          (draw_x (sn_max_x w - 2) 1 (sn_rng w) j)
          (draw_y (sn_max_y w - 3) 2 (sn_rng w) j)"
    using loop_ret [OF that(3,4,5)] that(1,2) assms
    by (simp add: fs_move_snake_def fs_spawn_food_def)
  from sn have 1: "sn_move_snake m w = Some (Inr w') \<longrightarrow>
        hd (head (snake w')) = ?nh
        \<and> length (head (snake w')) = (if ?eats then length (head (snake w)) + 1 else length (head (snake w)))"
    by (rule impI)
  from fs have 2: "fs_move_snake m w = Some (Inr w') \<longrightarrow>
        hd (head (snake w')) = ?nh
        \<and> length (head (snake w')) = (if ?eats then length (head (snake w)) + 1 else length (head (snake w)))"
    by (rule impI)
  from ret have 3: "m \<and> \<not> ?eats \<longrightarrow>
        (\<exists>v. sn_move_snake m w = Some (Inr v)) \<and> (\<exists>v. fs_move_snake m w = Some (Inr v))"
    by simp
  from sn_eat have 4: "m \<and> seg_x h + dir_x (snake w) = food_x (food w) \<and> seg_y h + dir_y (snake w) = food_y (food w)
          \<and> play_w w - 2 \<noteq> 0 \<and> play_h w - 2 \<noteq> 0
          \<and> \<not> conflict (?fh # h # hs)
                (draw_x (play_w w - 2) (play_x0 w + 1) (sn_rng w) j)
                (draw_y (play_h w - 2) (play_y0 w + 1) (sn_rng w) j) \<longrightarrow>
        (\<exists>v. sn_move_snake m w = Some (Inr v) \<and> head (snake v) = ?fh # h # hs)"
    by simp
  from fs_eat have 5: "m \<and> seg_x h + dir_x (snake w) = food_x (food w) \<and> seg_y h + dir_y (snake w) = food_y (food w)
          \<and> sn_max_x w - 2 \<noteq> 0 \<and> sn_max_y w - 3 \<noteq> 0
          \<and> \<not> conflict (?fh # h # hs)
                (draw_x (sn_max_x w - 2) 1 (sn_rng w) j)
                (draw_y (sn_max_y w - 3) 2 (sn_rng w) j) \<longrightarrow>
        (\<exists>v. fs_move_snake m w = Some (Inr v) \<and> head (snake v) = ?fh # h # hs)"
    by simp
  show ?thesis using 1 2 3 4 5 by (intro conjI)
qed

theorem move_snake_head_and_length_witness:
  "sn_move_snake True snake0 =
     Some (Inr (snake0\<lparr>snake := (snake snake0)\<lparr>head :=
        [\<lparr>seg_x = 41, seg_y = 12\<rparr>, \<lparr>seg_x = 40, seg_y = 12\<rparr>, \<lparr>seg_x = 39, seg_y = 12\<rparr>,
         \<lparr>seg_x = 38, seg_y = 12\<rparr>]\<rparr>,
        score := 10, sn_rng := (sn_rng snake0)\<lparr>rand_calls := 4\<rparr>,
        food := \<lparr>food_x = 24, food_y = 8\<rparr>\<rparr>))
   \<and> fs_move_snake True snake0 =
     Some (Inr (snake0\<lparr>snake := (snake snake0)\<lparr>head :=
        [\<lparr>seg_x = 41, seg_y = 12\<rparr>, \<lparr>seg_x = 40, seg_y = 12\<rparr>, \<lparr>seg_x = 39, seg_y = 12\<rparr>,
         \<lparr>seg_x = 38, seg_y = 12\<rparr>]\<rparr>,
        score := 10, sn_rng := (sn_rng snake0)\<lparr>rand_calls := 4\<rparr>,
        food := \<lparr>food_x = 4, food_y = 3\<rparr>\<rparr>))
   \<and> sn_move_snake True (snake0\<lparr>food := \<lparr>food_x = 5, food_y = 5\<rparr>\<rparr>) =
     Some (Inr (snake0\<lparr>food := \<lparr>food_x = 5, food_y = 5\<rparr>, snake := (snake snake0)\<lparr>head :=
        [\<lparr>seg_x = 41, seg_y = 12\<rparr>, \<lparr>seg_x = 40, seg_y = 12\<rparr>, \<lparr>seg_x = 39, seg_y = 12\<rparr>]\<rparr>\<rparr>))
   \<and> fs_move_snake True (snake0\<lparr>food := \<lparr>food_x = 5, food_y = 5\<rparr>\<rparr>) =
     Some (Inr (snake0\<lparr>food := \<lparr>food_x = 5, food_y = 5\<rparr>, snake := (snake snake0)\<lparr>head :=
        [\<lparr>seg_x = 41, seg_y = 12\<rparr>, \<lparr>seg_x = 40, seg_y = 12\<rparr>, \<lparr>seg_x = 39, seg_y = 12\<rparr>]\<rparr>\<rparr>))
   \<and> \<not> conflict [\<lparr>seg_x = 41, seg_y = 12\<rparr>, \<lparr>seg_x = 40, seg_y = 12\<rparr>, \<lparr>seg_x = 39, seg_y = 12\<rparr>,
         \<lparr>seg_x = 38, seg_y = 12\<rparr>]
        (draw_x (play_w snake0 - 2) (play_x0 snake0 + 1) (sn_rng snake0) 1)
        (draw_y (play_h snake0 - 2) (play_y0 snake0 + 1) (sn_rng snake0) 1)
   \<and> \<not> conflict [\<lparr>seg_x = 41, seg_y = 12\<rparr>, \<lparr>seg_x = 40, seg_y = 12\<rparr>, \<lparr>seg_x = 39, seg_y = 12\<rparr>,
         \<lparr>seg_x = 38, seg_y = 12\<rparr>]
        (draw_x (sn_max_x snake0 - 2) 1 (sn_rng snake0) 1)
        (draw_y (sn_max_y snake0 - 3) 2 (sn_rng snake0) 1)"
proof -
  have sn_eat: "sn_move_snake True snake0 =
     Some (Inr (snake0\<lparr>snake := (snake snake0)\<lparr>head :=
        [\<lparr>seg_x = 41, seg_y = 12\<rparr>, \<lparr>seg_x = 40, seg_y = 12\<rparr>, \<lparr>seg_x = 39, seg_y = 12\<rparr>,
         \<lparr>seg_x = 38, seg_y = 12\<rparr>]\<rparr>,
        score := 10, sn_rng := (sn_rng snake0)\<lparr>rand_calls := 4\<rparr>,
        food := \<lparr>food_x = 24, food_y = 8\<rparr>\<rparr>))"
    apply (simp add: sn_move_snake_def sn_spawn_food_def snake0_def)
    apply (subst food_loop.simps)
    apply (simp add: rand_def c_rem_def)
    apply (subst food_loop.simps)
    apply (simp add: rand_def c_rem_def)
    done
  have fs_eat: "fs_move_snake True snake0 =
     Some (Inr (snake0\<lparr>snake := (snake snake0)\<lparr>head :=
        [\<lparr>seg_x = 41, seg_y = 12\<rparr>, \<lparr>seg_x = 40, seg_y = 12\<rparr>, \<lparr>seg_x = 39, seg_y = 12\<rparr>,
         \<lparr>seg_x = 38, seg_y = 12\<rparr>]\<rparr>,
        score := 10, sn_rng := (sn_rng snake0)\<lparr>rand_calls := 4\<rparr>,
        food := \<lparr>food_x = 4, food_y = 3\<rparr>\<rparr>))"
    apply (simp add: fs_move_snake_def fs_spawn_food_def snake0_def)
    apply (subst food_loop.simps)
    apply (simp add: rand_def c_rem_def)
    apply (subst food_loop.simps)
    apply (simp add: rand_def c_rem_def)
    done
  have sn_move: "sn_move_snake True (snake0\<lparr>food := \<lparr>food_x = 5, food_y = 5\<rparr>\<rparr>) =
     Some (Inr (snake0\<lparr>food := \<lparr>food_x = 5, food_y = 5\<rparr>, snake := (snake snake0)\<lparr>head :=
        [\<lparr>seg_x = 41, seg_y = 12\<rparr>, \<lparr>seg_x = 40, seg_y = 12\<rparr>, \<lparr>seg_x = 39, seg_y = 12\<rparr>]\<rparr>\<rparr>))"
    by (simp add: sn_move_snake_def sn_erase_tail_def snake0_def)
  have fs_move: "fs_move_snake True (snake0\<lparr>food := \<lparr>food_x = 5, food_y = 5\<rparr>\<rparr>) =
     Some (Inr (snake0\<lparr>food := \<lparr>food_x = 5, food_y = 5\<rparr>, snake := (snake snake0)\<lparr>head :=
        [\<lparr>seg_x = 41, seg_y = 12\<rparr>, \<lparr>seg_x = 40, seg_y = 12\<rparr>, \<lparr>seg_x = 39, seg_y = 12\<rparr>]\<rparr>\<rparr>))"
    by (simp add: fs_move_snake_def fs_erase_tail_def snake0_def)
  have free: "\<not> conflict [\<lparr>seg_x = 41, seg_y = 12\<rparr>, \<lparr>seg_x = 40, seg_y = 12\<rparr>, \<lparr>seg_x = 39, seg_y = 12\<rparr>,
         \<lparr>seg_x = 38, seg_y = 12\<rparr>]
        (draw_x (play_w snake0 - 2) (play_x0 snake0 + 1) (sn_rng snake0) 1)
        (draw_y (play_h snake0 - 2) (play_y0 snake0 + 1) (sn_rng snake0) 1)"
    and free': "\<not> conflict [\<lparr>seg_x = 41, seg_y = 12\<rparr>, \<lparr>seg_x = 40, seg_y = 12\<rparr>, \<lparr>seg_x = 39, seg_y = 12\<rparr>,
         \<lparr>seg_x = 38, seg_y = 12\<rparr>]
        (draw_x (sn_max_x snake0 - 2) 1 (sn_rng snake0) 1)
        (draw_y (sn_max_y snake0 - 3) 2 (sn_rng snake0) 1)"
    by (simp_all add: draw_x_def draw_y_def snake0_def c_rem_def)
  have h: "head (snake snake0) = \<lparr>seg_x = 40, seg_y = 12\<rparr> # [\<lparr>seg_x = 39, seg_y = 12\<rparr>, \<lparr>seg_x = 38, seg_y = 12\<rparr>]"
    by (simp add: snake0_def)
  have h': "head (snake (snake0\<lparr>food := \<lparr>food_x = 5, food_y = 5\<rparr>\<rparr>))
      = \<lparr>seg_x = 40, seg_y = 12\<rparr> # [\<lparr>seg_x = 39, seg_y = 12\<rparr>, \<lparr>seg_x = 38, seg_y = 12\<rparr>]"
    by (simp add: snake0_def)
  show ?thesis
    using move_snake_head_and_length [OF h, of True _ 1] move_snake_head_and_length [OF h', of True _ 1]
      sn_eat fs_eat sn_move fs_move free free'
    by (intro conjI)
qed

text \<open>
  A key while a snake game is paused: \<^verbatim>\<open>p\<close> ends the pause, \<^verbatim>\<open>q\<close> ends the game,
  and every other key, the arrows included, leaves the state as it is.
\<close>

lemma snake_paused_key:
  "sn_paused w \<Longrightarrow>
     snake_key ch w =
       (if ch = chr (CHR ''p'') \<or> ch = chr (CHR ''P'') then Continue (w\<lparr>sn_paused := False\<rparr>)
        else if ch = chr (CHR ''q'') \<or> ch = chr (CHR ''Q'') then Quit w
        else Continue w)"
  by (simp add: snake_key_def chr_def KEY_UP_def KEY_DOWN_def KEY_LEFT_def KEY_RIGHT_def)

section \<open>Properties of the platformer\<close>

text \<open>Only a tile inside the map is solid: \<^verbatim>\<open>map_at\<close> reads a space outside of it.\<close>

lemma tile_collide_in_map:
  "tile_collide s tx ty \<Longrightarrow> 0 \<le> tx \<and> tx < map_w s \<and> 0 \<le> ty \<and> ty < map_h s"
  by (auto simp: tile_collide_def map_at_def Let_def split: if_splits)

lemma set_map_char_player: "ma_player (set_map_char mx my c s) = ma_player s"
  by (simp add: set_map_char_def)

lemma pickup_player:
  "pl_y (ma_player (pickup s)) = pl_y (ma_player s)
   \<and> pl_x (ma_player (pickup s)) = pl_x (ma_player s)
   \<and> vy (ma_player (pickup s)) = vy (ma_player s)
   \<and> on_ground (ma_player (pickup s)) = on_ground (ma_player s)
   \<and> lives (ma_player (pickup s)) = lives (ma_player s)"
  by (simp add: pickup_def Let_def set_map_char_player)

text \<open>
  What the code does on landing: in an \<^verbatim>\<open>update_physics\<close> in which the vertical
  velocity, gravity added, is not negative and the tile in the projected foot row under the
  column of \<open>x - 1\<close> or of \<open>x + 1\<close> is solid, the player ends the update one row above
  that tile, with velocity 0 and standing on the ground.
\<close>

lemma outer_column_landing:
  assumes "vy (ma_player s) + GRAVITY \<ge> 0"
      and "tile_collide s (left_tile s) (foot_tile s) \<or> tile_collide s (right_tile s) (foot_tile s)"
  shows "pl_y (ma_player (update_physics s)) = of_int (foot_tile s) - 1
       \<and> vy (ma_player (update_physics s)) = 0
       \<and> on_ground (ma_player (update_physics s))"
proof -
  let ?s1 = "move_vertical s"
  have mv: "?s1 = s\<lparr>ma_player :=
      (ma_player s)\<lparr>vy := 0, on_ground := True, pl_y := of_int (foot_tile s) - 1\<rparr>\<rparr>"
    using assms by (simp add: move_vertical_def Let_def)
  from assms(2) have "foot_tile s < map_h s" using tile_collide_in_map by blast
  then have "\<not> pl_y (ma_player ?s1) > of_int (map_h s - 1)" by (simp add: mv)
  then have fb: "fall_below ?s1 = ?s1" by (simp add: fall_below_def mv)
  show ?thesis unfolding update_physics_def fb by (simp add: pickup_player) (simp add: mv)
qed

lemma loaded_dims: "map_w loaded = 80 \<and> map_h loaded = 22"
  by (simp add: loaded_def load_map_def level_map_def blank_def Let_def)

lemma loaded_rows:
  "map_data loaded = map (\<lambda>row. row @ replicate (80 - length row) (CHR '' '')) level_map"
  using loaded_dims by (simp add: loaded_def load_map_def Let_def split: if_splits)

lemma in_play_dims: "map_w (in_play p) = 80 \<and> map_h (in_play p) = 22"
  by (simp add: in_play_def set_map_char_def loaded_dims)

lemma in_play_player: "ma_player (in_play p) = p"
  by (simp add: in_play_def)

lemma in_play_enemy:
  "ma_enemies (in_play p) ! 0
     = \<lparr>alive = True, en_x = 61, en_y = 18, dir = - 1, left_bound = 0, right_bound = 79\<rparr>
   \<and> enemy_count (in_play p) = 1"
  by (simp add: in_play_def blank_def set_map_char_def)

lemma in_play_ground: "map_at (in_play p) 15 19 = CHR ''=''"
  by (simp add: in_play_def map_at_def set_map_char_def loaded_dims loaded_rows level_map_def)

lemma landing_on_level:
  "foot_tile (in_play landing) = 19
   \<and> tile_collide (in_play landing) 15 19
   \<and> pl_y (ma_player (update_physics (in_play landing))) = 18
   \<and> vy (ma_player (update_physics (in_play landing))) = 0
   \<and> on_ground (ma_player (update_physics (in_play landing)))"
proof -
  have v: "vy (ma_player (in_play landing)) + GRAVITY \<ge> 0"
    by (simp add: in_play_player landing_def GRAVITY_def)
  have f: "foot_tile (in_play landing) = 19" and l: "left_tile (in_play landing) = 15"
    by (simp_all add: foot_tile_def left_tile_def new_y_def in_play_player landing_def GRAVITY_def)
  have t: "tile_collide (in_play landing) 15 19"
    by (simp add: tile_collide_def in_play_ground)
  then have t': "tile_collide (in_play landing) (left_tile (in_play landing)) (foot_tile (in_play landing))
      \<or> tile_collide (in_play landing) (right_tile (in_play landing)) (foot_tile (in_play landing))"
    by (simp add: f l)
  from outer_column_landing [OF v t'] f t show ?thesis by simp
qed




lemma spawn_cell_player: "ma_player (spawn_cell cr s) = ma_player s"
  by (cases cr) (simp add: spawn_cell_def Let_def set_map_char_player split: prod.splits)

lemma fold_spawn_cell_player: "ma_player (fold spawn_cell cs s) = ma_player s"
  by (induction cs arbitrary: s) (simp_all add: spawn_cell_player)

text \<open>\<^verbatim>\<open>reset_level\<close> puts the player on the spawn position, with three lives and no score.\<close>

lemma reset_level_player:
  "ma_player (reset_level s) =
     \<lparr>pl_x = of_int (fst (spawn_pos s)) + 1 / 2, pl_y = of_int (snd (spawn_pos s)), vy = 0,
      facing = 1, on_ground = False, lives = 3, pl_score = 0\<rparr>"
  by (simp add: reset_level_def spawn_enemies_from_map_def fold_spawn_cell_player split: prod.splits)

text \<open>
  A fall below the map with a life to spare: \<^verbatim>\<open>update_physics\<close> takes a life and calls
  \<^verbatim>\<open>reset_level\<close>, which sets the lives to 3 again.
\<close>

lemma fall_restores_lives:
  assumes "pl_y (ma_player (move_vertical s)) > of_int (map_h s - 1)"
      and "lives (ma_player s) > 1"
    shows "lives (ma_player (update_physics s)) = 3"
proof -
  have l: "lives (ma_player (move_vertical s)) = lives (ma_player s)"
   and h: "map_h (move_vertical s) = map_h s"
    by (simp_all add: move_vertical_def Let_def)
  show ?thesis using assms l h
    by (simp add: update_physics_def pickup_player fall_below_def Let_def reset_level_player)
qed

lemma fall_resets_level:
  assumes "pl_y (ma_player (move_vertical s)) > of_int (map_h s - 1)"
      and "lives (ma_player s) > 1"
    shows "fall_below (move_vertical s)
             = reset_level ((move_vertical s)
                 \<lparr>ma_player := (ma_player (move_vertical s))\<lparr>lives := lives (ma_player s) - 1\<rparr>\<rparr>)"
proof -
  have l: "lives (ma_player (move_vertical s)) = lives (ma_player s)"
   and h: "map_h (move_vertical s) = map_h s"
    by (simp_all add: move_vertical_def Let_def)
  show ?thesis using assms l h by (simp add: fall_below_def Let_def)
qed

text \<open>
  C2. A fall below the last row of the map does not cost a life when a life remains: the
  player of \<open>in_play falling\<close> has three lives, leaves the map in the next
  \<^verbatim>\<open>update_physics\<close> (its \<open>y\<close> becomes \<open>21.3\<close>, the last row is 21) and comes out of the
  update with three lives, not two. The level reset that follows the decrement sets the
  lives to 3 and the score to 0.
\<close>

theorem fall_keeps_three_lives:
  "lives (ma_player (in_play falling)) = 3
   \<and> pl_y (ma_player (move_vertical (in_play falling))) = 213 / 10
   \<and> map_h (in_play falling) - 1 = 21
   \<and> lives (ma_player (update_physics (in_play falling))) = 3"
proof -
  have mv: "pl_y (ma_player (move_vertical (in_play falling))) = 213 / 10"
    by (simp add: move_vertical_def Let_def in_play_player falling_def GRAVITY_def
        tile_collide_def map_at_def in_play_dims left_tile_def right_tile_def foot_tile_def new_y_def)
  have h1: "pl_y (ma_player (move_vertical (in_play falling))) > of_int (map_h (in_play falling) - 1)"
    by (simp add: mv in_play_dims)
  have h2: "lives (ma_player (in_play falling)) > 1"
    by (simp add: in_play_player falling_def)
  have l: "lives (ma_player (in_play falling)) = 3"
    by (simp add: in_play_player falling_def)
  have h: "map_h (in_play falling) - 1 = 21"
    by (simp add: in_play_dims)
  from fall_restores_lives [OF h1 h2] mv l h show ?thesis
    by (intro conjI)
qed

lemma find_first:
  "\<forall>x\<in>set pre. \<not> P x \<Longrightarrow> P y \<Longrightarrow> List.find P (pre @ y # post) = Some y"
  by (induction pre) auto

lemma upt_split: "k < n \<Longrightarrow> [0..<n] = [0..<k] @ k # [Suc k..<n]"
  using upt_add_eq_append [of 0 k "n - k"] upt_conv_Cons [of k n] by simp

text \<open>
  The ground \<^verbatim>\<open>reset_level\<close> finds is the first solid tile in the order of its loops:
  no row above holds one, and no column to its left in its row.
\<close>

lemma find_ground_first:
  assumes r: "r < nat (map_h s)" and c: "c < nat (map_w s)"
    and g: "ground (map_at s (int c) (int r))"
    and ups: "\<forall>r'<r. \<forall>c'<nat (map_w s). \<not> ground (map_at s (int c') (int r'))"
    and lefts: "\<forall>c'<c. \<not> ground (map_at s (int c') (int r))"
  shows "find_ground s = Some (int c, int r)"
proof -
  let ?W = "nat (map_w s)" and ?H = "nat (map_h s)"
  let ?row = "\<lambda>r. map (\<lambda>c. (int c, int r)) [0..<?W]"
  let ?P = "\<lambda>cr. map_at s (fst cr) (snd cr) = CHR ''='' \<or> map_at s (fst cr) (snd cr) = CHR ''#''"
  let ?pre = "concat (map ?row [0..<r]) @ map (\<lambda>c. (int c, int r)) [0..<c]"
  let ?post = "map (\<lambda>c. (int c, int r)) [Suc c..<?W] @ concat (map ?row [Suc r..<?H])"
  have "cells s = ?pre @ (int c, int r) # ?post"
    unfolding cells_def by (simp add: upt_split [OF r] upt_split [OF c])
  moreover have "\<forall>x\<in>set ?pre. \<not> ?P x"
    using ups lefts by (auto simp: ground_def)
  moreover have "?P (int c, int r)" using g by (simp add: ground_def)
  ultimately show ?thesis
    unfolding find_ground_def using find_first [of ?pre ?P "(int c, int r)" ?post] by simp
qed

text \<open>The same in terms of the rows of a map whose rows have the width of the map.\<close>

lemma find_ground_rows:
  assumes h: "map_h s = int (length (map_data s))"
    and w: "\<forall>row\<in>set (map_data s). int (length row) = map_w s"
    and split: "map_data s = ups @ (pre @ g # post) # downs"
    and ups: "\<forall>row\<in>set ups. \<forall>ch\<in>set row. \<not> ground ch"
    and pre: "\<forall>ch\<in>set pre. \<not> ground ch"
    and g: "ground g"
  shows "find_ground s = Some (int (length pre), int (length ups))"
proof (rule find_ground_first)
  show r: "length ups < nat (map_h s)" using h split by simp
  have lw: "int (length (pre @ g # post)) = map_w s" using w split by simp
  then show c: "length pre < nat (map_w s)" by simp
  have at: "map_at s (int c') (int r') = map_data s ! r' ! c'"
    if "r' < nat (map_h s)" "c' < nat (map_w s)" for r' c'
    using that by (auto simp: map_at_def)
  show "ground (map_at s (int (length pre)) (int (length ups)))"
    using at [OF r c] g by (simp add: split nth_append)
  show "\<forall>c'<length pre. \<not> ground (map_at s (int c') (int (length ups)))"
    using at [OF r] c pre by (simp add: split nth_append)
  show "\<forall>r'<length ups. \<forall>c'<nat (map_w s). \<not> ground (map_at s (int c') (int r'))"
  proof (intro allI impI)
    fix r' c' assume r': "r' < length ups" and c': "c' < nat (map_w s)"
    have "ups ! r' \<in> set (map_data s)" using r' split by simp
    then have "length (ups ! r') = nat (map_w s)" using w by auto
    then have "ups ! r' ! c' \<in> set (ups ! r')" using c' by simp
    moreover have "ups ! r' \<in> set ups" using r' by simp
    ultimately have "\<not> ground (ups ! r' ! c')" using ups by blast
    moreover have "map_at s (int c') (int r') = ups ! r' ! c'"
      using at [of r' c'] r r' c' by (simp add: split nth_append)
    ultimately show "\<not> ground (map_at s (int c') (int r'))" by simp
  qed
qed

text \<open>
  On the map of the program the first solid tile is the \<^verbatim>\<open>#\<close> at column 16 of row 8,
  so \<^verbatim>\<open>reset_level\<close> spawns the player at column 16, row 6: at \<open>(16.5, 6)\<close>.
\<close>

lemma in_play_rows:
  "map_data (in_play p)
     = (map (\<lambda>row. row @ replicate (80 - length row) (CHR '' '')) level_map)
         [18 := (map (\<lambda>row. row @ replicate (80 - length row) (CHR '' '')) level_map ! 18)[61 := CHR '' '']]"
  by (simp add: in_play_def set_map_char_def loaded_dims loaded_rows)

lemma level_spawn_pos: "spawn_pos loaded = (16, 6) \<and> spawn_pos (in_play p) = (16, 6)"
proof -
  have a: "find_ground loaded
      = Some (int (length ''                ''), int (length (take 8 (map_data loaded))))"
  proof (rule find_ground_rows [where post = "''####                                                           ''" and downs = "drop 9 (map_data loaded)"
        and g = "CHR ''#''"])
    show "map_h loaded = int (length (map_data loaded))"
      by (simp add: loaded_dims loaded_rows level_map_def)
    show "\<forall>row\<in>set (map_data loaded). int (length row) = map_w loaded"
      by (simp add: loaded_dims loaded_rows level_map_def)
    show "map_data loaded = take 8 (map_data loaded) @ (''                '' @ CHR ''#'' # ''####                                                           '') # drop 9 (map_data loaded)"
      by (simp add: loaded_rows level_map_def)
    show "\<forall>row\<in>set (take 8 (map_data loaded)). \<forall>ch\<in>set row. \<not> ground ch"
      by (simp add: loaded_rows level_map_def ground_def)
    show "\<forall>ch\<in>set ''                ''. \<not> ground ch" by (simp add: ground_def)
    show "ground CHR ''#''" by (simp add: ground_def)
  qed
  have b: "find_ground (in_play p)
      = Some (int (length ''                ''), int (length (take 8 (map_data (in_play p)))))"
  proof (rule find_ground_rows [where post = "''####                                                           ''" and downs = "drop 9 (map_data (in_play p))"
        and g = "CHR ''#''"])
    show "map_h (in_play p) = int (length (map_data (in_play p)))"
      by (simp add: in_play_dims in_play_rows level_map_def)
    show "\<forall>row\<in>set (map_data (in_play p)). int (length row) = map_w (in_play p)"
      by (simp add: in_play_dims in_play_rows level_map_def)
    show "map_data (in_play p)
        = take 8 (map_data (in_play p)) @ (''                '' @ CHR ''#'' # ''####                                                           '') # drop 9 (map_data (in_play p))"
      by (simp add: in_play_rows level_map_def)
    show "\<forall>row\<in>set (take 8 (map_data (in_play p))). \<forall>ch\<in>set row. \<not> ground ch"
      by (simp add: in_play_rows level_map_def ground_def)
    show "\<forall>ch\<in>set ''                ''. \<not> ground ch" by (simp add: ground_def)
    show "ground CHR ''#''" by (simp add: ground_def)
  qed
  have "length (map_data loaded) = 22" by (simp add: loaded_rows level_map_def)
  moreover have "length (map_data (in_play p)) = 22" by (simp add: in_play_rows level_map_def)
  ultimately show ?thesis using a b by (simp add: spawn_pos_def)
qed

lemma single_enemy_call:
  "enemy_count s = 1 \<Longrightarrow>
     check_enemy_collisions s
       = enemy_contact \<lfloor>pl_x (ma_player s)\<rfloor> \<lfloor>pl_y (ma_player s) + 1 / 2\<rfloor> 0 s"
  by (simp add: check_enemy_collisions_def Let_def)

text \<open>
  C3. A contact that is no stomp, with a life to spare, costs one life, but it does not put
  the player on the spawn position of the level: \<^verbatim>\<open>check_enemy_collisions\<close> writes the
  constants \<open>(2.5, 2)\<close>, and on the map of the program \<^verbatim>\<open>reset_level\<close> computes
  \<open>(16.5, 6)\<close>. Here the player walks into the enemy of the level with three lives.
\<close>

theorem hurt_respawn_off_spawn:
  "ma_player (check_enemy_collisions (in_play walking))
     = walking\<lparr>lives := 2, pl_x := 5 / 2, pl_y := 2\<rparr>
   \<and> pl_x (ma_player (reset_level (in_play walking))) = 33 / 2
   \<and> pl_y (ma_player (reset_level (in_play walking))) = 6
   \<and> pl_x (ma_player (reset_level loaded)) = 33 / 2
   \<and> pl_y (ma_player (reset_level loaded)) = 6"
proof -
  have "ma_player (check_enemy_collisions (in_play walking))
      = walking\<lparr>lives := 2, pl_x := 5 / 2, pl_y := 2\<rparr>"
    by (simp add: single_enemy_call in_play_enemy enemy_contact_def in_play_player
        touches_def stomps_def walking_def Let_def)
  then show ?thesis by (simp add: reset_level_player level_spawn_pos)
qed

text \<open>
  C10. A contact with a living enemy that is no stomp, with more than one life left,
  changes the lives (one less), the position (to \<open>(2.5, 2)\<close>) and the vertical velocity
  (to 0) of the player, and nothing else of the state: the score, the map and the enemies
  are as before, and the enemy touched is still alive. The contact is one round of the
  loop of \<^verbatim>\<open>check_enemy_collisions\<close>, for the enemy of index \<open>i\<close>.
\<close>

theorem hurt_contact_frame:
  assumes "alive (ma_enemies s ! i)"
      and "touches ptx pty (ma_enemies s ! i)"
      and "\<not> stomps (ma_player s) (ma_enemies s ! i)"
      and "lives (ma_player s) > 1"
  shows "enemy_contact ptx pty i s
           = s\<lparr>ma_player := (ma_player s)
                 \<lparr>lives := lives (ma_player s) - 1, pl_x := 5 / 2, pl_y := 2, vy := 0\<rparr>\<rparr>
       \<and> pl_score (ma_player (enemy_contact ptx pty i s)) = pl_score (ma_player s)
       \<and> map_data (enemy_contact ptx pty i s) = map_data s
       \<and> ma_enemies (enemy_contact ptx pty i s) = ma_enemies s
       \<and> enemy_count (enemy_contact ptx pty i s) = enemy_count s
       \<and> alive (ma_enemies (enemy_contact ptx pty i s) ! i)"
  using assms by (simp add: enemy_contact_def Let_def)

theorem hurt_contact_frame_witness:
  "touches 60 18 (ma_enemies (in_play walking) ! 0)
   \<and> lives (ma_player (in_play walking)) = 3
   \<and> check_enemy_collisions (in_play walking)
       = in_play (walking\<lparr>lives := 2, pl_x := 5 / 2, pl_y := 2\<rparr>)"
proof -
  have a: "alive (ma_enemies (in_play walking) ! 0)" by (simp add: in_play_enemy)
  have t: "touches 60 18 (ma_enemies (in_play walking) ! 0)"
    by (simp add: in_play_enemy touches_def)
  have n: "\<not> stomps (ma_player (in_play walking)) (ma_enemies (in_play walking) ! 0)"
    by (simp add: in_play_player stomps_def walking_def)
  have l: "lives (ma_player (in_play walking)) > 1"
    by (simp add: in_play_player walking_def)
  have c: "check_enemy_collisions (in_play walking) = enemy_contact 60 18 0 (in_play walking)"
    by (simp add: single_enemy_call in_play_enemy in_play_player walking_def)
  from hurt_contact_frame [OF a t n l] t c show ?thesis
    by (simp add: in_play_player walking_def) (simp add: in_play_def)
qed

text \<open>
  A call of \<^verbatim>\<open>check_enemy_collisions\<close> with a player that is not falling stomps no
  enemy, and so leaves the score, the map and the enemies as they are, whatever the number
  of contacts.
\<close>

lemma no_stomp_contact:
  assumes "vy (ma_player s) \<le> 0"
  shows "vy (ma_player (enemy_contact ptx pty i s)) \<le> 0
       \<and> pl_score (ma_player (enemy_contact ptx pty i s)) = pl_score (ma_player s)
       \<and> map_data (enemy_contact ptx pty i s) = map_data s
       \<and> ma_enemies (enemy_contact ptx pty i s) = ma_enemies s
       \<and> enemy_count (enemy_contact ptx pty i s) = enemy_count s"
  using assms by (simp add: enemy_contact_def stomps_def Let_def)

lemma no_stomp_fold:
  "vy (ma_player s) \<le> 0 \<Longrightarrow>
     pl_score (ma_player (fold (enemy_contact ptx pty) js s)) = pl_score (ma_player s)
     \<and> map_data (fold (enemy_contact ptx pty) js s) = map_data s
     \<and> ma_enemies (fold (enemy_contact ptx pty) js s) = ma_enemies s
     \<and> enemy_count (fold (enemy_contact ptx pty) js s) = enemy_count s"
proof (induction js arbitrary: s)
  case Nil
  then show ?case by simp
next
  case (Cons j js)
  from no_stomp_contact [OF Cons.prems, of ptx pty j] Cons.IH [of "enemy_contact ptx pty j s"]
  show ?case by simp
qed

lemma no_stomp_call_frame:
  "vy (ma_player s) \<le> 0 \<Longrightarrow>
     pl_score (ma_player (check_enemy_collisions s)) = pl_score (ma_player s)
     \<and> map_data (check_enemy_collisions s) = map_data s
     \<and> ma_enemies (check_enemy_collisions s) = ma_enemies s
     \<and> enemy_count (check_enemy_collisions s) = enemy_count s"
  unfolding check_enemy_collisions_def Let_def by (rule no_stomp_fold)

text \<open>
  A key while the platformer is paused: \<^verbatim>\<open>p\<close> ends the pause, \<^verbatim>\<open>q\<close> sets
  \<open>ma_game_over\<close>, and every other key leaves the state as it is.
\<close>

lemma mario_paused_key:
  "ma_paused s \<Longrightarrow>
     handle_key ch s =
       (if ch = chr (CHR ''p'') \<or> ch = chr (CHR ''P'') then s\<lparr>ma_paused := False\<rparr>
        else if ch = chr (CHR ''q'') \<or> ch = chr (CHR ''Q'') then s\<lparr>ma_game_over := True\<rparr>
        else s)"
  by (simp add: handle_key_def)

end
